theory Spec2Isabelle
  imports Main "HOL-Library.AList"
begin

section \<open>JavaScript values carried by socket events\<close>

text \<open>
  Event payloads arrive from the client as arbitrary JSON. Objects are association lists
  in insertion order; arrays and functions do not occur in the payloads of this protocol.
\<close>

datatype jsval =
    JUndefined
  | JNull
  | JBool bool
  | JNum int
  | JStr string
  | JObj "(string \<times> jsval) list"

datatype js_error = TypeError | TokenError | StoreError

text \<open>
  Property read \<open>v.k\<close>: reading a property of \<open>undefined\<close> or \<open>null\<close> throws a
  TypeError; a missing property, or one of the named properties of this protocol read
  from a primitive, is \<open>undefined\<close>.
\<close>

fun get_prop :: "jsval \<Rightarrow> string \<Rightarrow> js_error + jsval" where
  "get_prop JUndefined k = Inl TypeError"
| "get_prop JNull k = Inl TypeError"
| "get_prop (JObj fs) k = Inr (case map_of fs k of None \<Rightarrow> JUndefined | Some v \<Rightarrow> v)"
| "get_prop v k = Inr JUndefined"

definition digit :: "nat \<Rightarrow> char" where
  "digit n = ''0123456789'' ! (n mod 10)"

function show_nat :: "nat \<Rightarrow> string" where
  "show_nat n = (if n < 10 then [digit n] else show_nat (n div 10) @ [digit (n mod 10)])"
  by pat_completeness auto
termination
  by (relation "measure id") auto

declare show_nat.simps [simp del]

text \<open>
  Object spread \<open>{...v}\<close>: the own enumerable properties of \<open>v\<close>. An object gives its
  fields, a string its characters under their indices, every other primitive nothing.
\<close>

fun spread :: "jsval \<Rightarrow> (string \<times> jsval) list" where
  "spread (JObj fs) = fs"
| "spread (JStr cs) = zip (map show_nat [0..<length cs]) (map (\<lambda>c. JStr [c]) cs)"
| "spread v = []"

text \<open>
  \<open>{...data, k: v}\<close>: a key already present keeps its position and takes the new value,
  a new key goes last.
\<close>

definition set_prop :: "(string \<times> jsval) list \<Rightarrow> string \<Rightarrow> jsval \<Rightarrow> (string \<times> jsval) list" where
  "set_prop fs k v = AList.update k v fs"

section \<open>Documents of the store\<close>

text \<open>
  Modelled from the spec: the Mongoose models \<open>Room\<close>, \<open>Board\<close>, \<open>Chat\<close> and \<open>User\<close> are
  required from \<open>../models\<close> and are not part of the sources at hand. The document types
  carry the fields that the handlers and the spec's data model name; the operations
  on them are parameters of the handlers (record \<open>models\<close> below).
\<close>

record user =
  user_oid :: string
  username :: string
  avatar :: jsval

record room =
  room_oid :: string
  roomId :: string
  participants :: "string list"

record board =
  board_oid :: string
  board_roomId :: string

record chat_input =
  in_roomId :: string
  in_sender :: string
  in_message :: jsval

record chat =
  chat_oid :: string
  chat_roomId :: string
  chat_sender :: string
  chat_msg :: jsval
  chat_createdAt :: nat

record populated_chat =
  p_oid :: string
  p_roomId :: string
  p_sender :: user
  p_message :: jsval
  p_createdAt :: nat

text \<open>The broadcast form of a chat record, as the client receives it.\<close>

definition populated_js :: "populated_chat \<Rightarrow> jsval" where
  "populated_js p = JObj
     [(''_id'', JStr (p_oid p)),
      (''roomId'', JStr (p_roomId p)),
      (''sender'', JObj [(''_id'', JStr (user_oid (p_sender p))),
                         (''username'', JStr (username (p_sender p))),
                         (''avatar'', avatar (p_sender p))]),
      (''message'', p_message p),
      (''createdAt'', JNum (int (p_createdAt p)))]"

text \<open>
  The store operations the handlers call. Every operation may throw (\<open>Inl\<close>); a lookup
  returns \<open>None\<close> for JavaScript's \<open>null\<close>. Reads leave the store as it is, writes
  return the store after the call, whatever their outcome.
\<close>

record 'db models =
  jwt_verify :: "string \<Rightarrow> js_error + jsval"
  User_findById :: "jsval \<Rightarrow> 'db \<Rightarrow> js_error + user option"
  Room_findOne :: "string \<Rightarrow> 'db \<Rightarrow> js_error + room option"
  Board_findOne :: "string \<Rightarrow> 'db \<Rightarrow> js_error + board option"
  clearBoard :: "board \<Rightarrow> string \<Rightarrow> 'db \<Rightarrow> (js_error + unit) \<times> 'db"
  Chat_create :: "chat_input \<Rightarrow> 'db \<Rightarrow> (js_error + chat) \<times> 'db"
  Chat_findById_populate :: "string \<Rightarrow> 'db \<Rightarrow> js_error + populated_chat option"

section \<open>Sockets, live rooms and deliveries\<close>

record socket =
  sock_id :: string
  userId :: string
  user :: user
  roomCode :: "string option"

text \<open>
  The transport keeps, for every room name, the set of socket ids that joined it, next
  to the store. A delivery is one emitted packet with the sockets it reaches, resolved
  against the live rooms at the moment of the emit.
\<close>

record 'db world =
  rooms :: "string \<Rightarrow> string set"
  db :: 'db

type_synonym delivery = "string set \<times> string \<times> jsval"

type_synonym 'db state = "socket \<times> 'db world"

definition socket_emit :: "socket \<Rightarrow> string \<Rightarrow> jsval \<Rightarrow> delivery" where
  "socket_emit s ev p = ({sock_id s}, ev, p)"

definition socket_to_emit :: "socket \<Rightarrow> 'db world \<Rightarrow> string \<Rightarrow> string \<Rightarrow> jsval \<Rightarrow> delivery" where
  "socket_to_emit s w r ev p = (rooms w r - {sock_id s}, ev, p)"

definition io_to_emit :: "'db world \<Rightarrow> string \<Rightarrow> string \<Rightarrow> jsval \<Rightarrow> delivery" where
  "io_to_emit w r ev p = (rooms w r, ev, p)"

definition socket_join :: "socket \<Rightarrow> string \<Rightarrow> 'db world \<Rightarrow> 'db world" where
  "socket_join s r w = w\<lparr>rooms := (rooms w)(r := insert (sock_id s) (rooms w r))\<rparr>"

definition socket_leaveAll :: "socket \<Rightarrow> 'db world \<Rightarrow> 'db world" where
  "socket_leaveAll s w = w\<lparr>rooms := (\<lambda>r. rooms w r - {sock_id s})\<rparr>"

text \<open>The packets of a list of deliveries that reach socket \<open>t\<close>, in order.\<close>

definition received :: "string \<Rightarrow> delivery list \<Rightarrow> (string \<times> jsval) list" where
  "received t ds = map snd (filter (\<lambda>d. t \<in> fst d) ds)"

text \<open>
  The guard \<open>if (!socket.roomCode) return\<close> tests truthiness: the session has an active
  room when its recorded code is set and is not the empty string.
\<close>

definition active_room :: "socket \<Rightarrow> string option" where
  "active_room s = (case roomCode s of None \<Rightarrow> None | Some c \<Rightarrow> if c = [] then None else Some c)"

section \<open>Connection authentication\<close>

definition authenticateSocket ::
  "'db models \<Rightarrow> 'db \<Rightarrow> string \<Rightarrow> string option \<Rightarrow> string + socket" where
  "authenticateSocket M d sid token =
     (case token of
        None \<Rightarrow> Inl ''Authentication error''
      | Some t \<Rightarrow>
          if t = [] then Inl ''Authentication error''
          else (case jwt_verify M t of
                  Inl e \<Rightarrow> Inl ''Authentication error''
                | Inr decoded \<Rightarrow>
                    (case get_prop decoded ''_id'' of
                       Inl e \<Rightarrow> Inl ''Authentication error''
                     | Inr uid \<Rightarrow>
                         (case User_findById M uid d of
                            Inl e \<Rightarrow> Inl ''Authentication error''
                          | Inr None \<Rightarrow> Inl ''Authentication error''
                          | Inr (Some u) \<Rightarrow>
                              Inr \<lparr>sock_id = sid, userId = user_oid u, user = u,
                                   roomCode = None\<rparr>))))"

section \<open>Event handlers\<close>

text \<open>
  Each listener is a function from the session and the world it starts in to the session
  and world it leaves, with the packets it emitted in order. A listener runs to its end
  here: what other sessions do while it is suspended at an \<open>await\<close> is not part of the
  model. The \<open>async\<close> listeners wrap their body in \<open>try\<close>/\<open>catch\<close> and always return.
\<close>

definition join_room :: "'db models \<Rightarrow> string \<Rightarrow> 'db state \<Rightarrow> 'db state \<times> delivery list" where
  "join_room M code = (\<lambda>(s, w).
     case Room_findOne M code (db w) of
       Inl e \<Rightarrow> ((s, w), [socket_emit s ''error'' (JStr ''Failed to join room'')])
     | Inr None \<Rightarrow> ((s, w), [socket_emit s ''error'' (JStr ''Room not found'')])
     | Inr (Some rm) \<Rightarrow>
         if userId s \<notin> set (participants rm)
         then ((s, w), [socket_emit s ''error'' (JStr ''Access denied'')])
         else
           let w1 = socket_join s code w;
               s1 = s\<lparr>roomCode := Some code\<rparr>
           in ((s1, w1),
               [socket_to_emit s1 w1 code ''user-joined''
                  (JObj [(''userId'', JStr (userId s1)),
                         (''username'', JStr (username (user s1))),
                         (''avatar'', avatar (user s1))])]))"

definition drawing_update :: "'db models \<Rightarrow> jsval \<Rightarrow> 'db state \<Rightarrow> 'db state \<times> delivery list" where
  "drawing_update M data = (\<lambda>(s, w).
     case active_room s of
       None \<Rightarrow> ((s, w), [])
     | Some c \<Rightarrow>
         let relay = socket_to_emit s w c ''drawing-update''
                       (JObj (set_prop (spread data) ''userId'' (JStr (userId s))));
             failed = socket_emit s ''error'' (JStr ''Failed to update drawing'')
         in case get_prop data ''type'' of
              Inl e \<Rightarrow> ((s, w), [relay, failed])
            | Inr ty \<Rightarrow>
                if ty = JStr ''clear'' then
                  (case Room_findOne M c (db w) of
                     Inl e \<Rightarrow> ((s, w), [relay, failed])
                   | Inr None \<Rightarrow> ((s, w), [relay])
                   | Inr (Some rm) \<Rightarrow>
                       (case Board_findOne M (room_oid rm) (db w) of
                          Inl e \<Rightarrow> ((s, w), [relay, failed])
                        | Inr None \<Rightarrow> ((s, w), [relay])
                        | Inr (Some b) \<Rightarrow>
                            (case clearBoard M b (userId s) (db w) of
                               (Inl e, d) \<Rightarrow> ((s, w\<lparr>db := d\<rparr>), [relay, failed])
                             | (Inr u, d) \<Rightarrow> ((s, w\<lparr>db := d\<rparr>), [relay]))))
                else ((s, w), [relay]))"

definition chat_message :: "'db models \<Rightarrow> jsval \<Rightarrow> 'db state \<Rightarrow> 'db state \<times> delivery list" where
  "chat_message M message = (\<lambda>(s, w).
     case active_room s of
       None \<Rightarrow> ((s, w), [])
     | Some c \<Rightarrow>
         let failed = socket_emit s ''error'' (JStr ''Failed to send message'')
         in case Room_findOne M c (db w) of
              Inl e \<Rightarrow> ((s, w), [failed])
            | Inr None \<Rightarrow> ((s, w), [socket_emit s ''error'' (JStr ''Room not found'')])
            | Inr (Some rm) \<Rightarrow>
                (case get_prop message ''text'' of
                   Inl e \<Rightarrow> ((s, w), [failed])
                 | Inr txt \<Rightarrow>
                     (case Chat_create M
                             \<lparr>in_roomId = room_oid rm, in_sender = userId s, in_message = txt\<rparr>
                             (db w) of
                        (Inl e, d) \<Rightarrow> ((s, w\<lparr>db := d\<rparr>), [failed])
                      | (Inr chatMessage, d) \<Rightarrow>
                          (case Chat_findById_populate M (chat_oid chatMessage) d of
                             Inl e \<Rightarrow> ((s, w\<lparr>db := d\<rparr>), [failed])
                           | Inr None \<Rightarrow> ((s, w\<lparr>db := d\<rparr>), [failed])
                           | Inr (Some populatedMessage) \<Rightarrow>
                               ((s, w\<lparr>db := d\<rparr>),
                                [io_to_emit w c ''chat-message''
                                   (populated_js populatedMessage)])))))"

text \<open>
  The voice and signalling handlers are synchronous and have no \<open>try\<close>: a TypeError
  raised while the outgoing object is built escapes the handler (\<open>Inl\<close>) before
  anything is emitted.
\<close>

definition voice_toggle :: "jsval \<Rightarrow> 'db state \<Rightarrow> js_error + 'db state \<times> delivery list" where
  "voice_toggle data = (\<lambda>(s, w).
     case active_room s of
       None \<Rightarrow> Inr ((s, w), [])
     | Some c \<Rightarrow>
         (case get_prop data ''isEnabled'' of
            Inl e \<Rightarrow> Inl e
          | Inr v \<Rightarrow>
              Inr ((s, w),
                   [socket_to_emit s w c ''voice-toggle''
                      (JObj [(''userId'', JStr (userId s)),
                             (''username'', JStr (username (user s))),
                             (''isEnabled'', v)])])))"

definition voice_ready :: "jsval \<Rightarrow> 'db state \<Rightarrow> js_error + 'db state \<times> delivery list" where
  "voice_ready data = (\<lambda>(s, w).
     case active_room s of
       None \<Rightarrow> Inr ((s, w), [])
     | Some c \<Rightarrow>
         Inr ((s, w),
              [socket_to_emit s w c ''voice-ready''
                 (JObj [(''userId'', JStr (userId s)),
                        (''username'', JStr (username (user s)))])]))"

text \<open>
  The three WebRTC handlers differ in the event name and the relayed field only.
\<close>

definition webrtc_relay ::
  "string \<Rightarrow> string \<Rightarrow> jsval \<Rightarrow> 'db state \<Rightarrow> js_error + 'db state \<times> delivery list" where
  "webrtc_relay ev field data = (\<lambda>(s, w).
     case active_room s of
       None \<Rightarrow> Inr ((s, w), [])
     | Some c \<Rightarrow>
         (case get_prop data field of
            Inl e \<Rightarrow> Inl e
          | Inr v \<Rightarrow>
              Inr ((s, w),
                   [socket_to_emit s w c ev
                      (JObj [(''userId'', JStr (userId s)), (field, v)])])))"

definition webrtc_offer :: "jsval \<Rightarrow> 'db state \<Rightarrow> js_error + 'db state \<times> delivery list" where
  "webrtc_offer = webrtc_relay ''webrtc-offer'' ''offer''"

definition webrtc_answer :: "jsval \<Rightarrow> 'db state \<Rightarrow> js_error + 'db state \<times> delivery list" where
  "webrtc_answer = webrtc_relay ''webrtc-answer'' ''answer''"

definition webrtc_ice_candidate ::
  "jsval \<Rightarrow> 'db state \<Rightarrow> js_error + 'db state \<times> delivery list" where
  "webrtc_ice_candidate = webrtc_relay ''webrtc-ice-candidate'' ''candidate''"

definition disconnect :: "'db state \<Rightarrow> 'db state \<times> delivery list" where
  "disconnect = (\<lambda>(s, w).
     case active_room s of
       None \<Rightarrow> ((s, w), [])
     | Some c \<Rightarrow>
         ((s, w),
          [socket_to_emit s w c ''user-left''
             (JObj [(''userId'', JStr (userId s)),
                    (''username'', JStr (username (user s)))])]))"

section \<open>Dispatch\<close>

datatype event =
    JoinRoom string
  | DrawingUpdate jsval
  | ChatMessage jsval
  | VoiceToggle jsval
  | VoiceReady jsval
  | WebrtcOffer jsval
  | WebrtcAnswer jsval
  | WebrtcIceCandidate jsval

text \<open>
  The kinds that every handler guards with \<open>if (!socket.roomCode) return\<close>: all but
  \<open>join-room\<close>.
\<close>

fun room_scoped :: "event \<Rightarrow> bool" where
  "room_scoped (JoinRoom code) = False"
| "room_scoped (DrawingUpdate data) = True"
| "room_scoped (ChatMessage message) = True"
| "room_scoped (VoiceToggle data) = True"
| "room_scoped (VoiceReady data) = True"
| "room_scoped (WebrtcOffer data) = True"
| "room_scoped (WebrtcAnswer data) = True"
| "room_scoped (WebrtcIceCandidate data) = True"

text \<open>The listeners that \<open>io.on('connection')\<close> registers on an accepted socket.\<close>

fun on_event :: "'db models \<Rightarrow> event \<Rightarrow> 'db state \<Rightarrow> js_error + 'db state \<times> delivery list" where
  "on_event M (JoinRoom code) st = Inr (join_room M code st)"
| "on_event M (DrawingUpdate data) st = Inr (drawing_update M data st)"
| "on_event M (ChatMessage message) st = Inr (chat_message M message st)"
| "on_event M (VoiceToggle data) st = voice_toggle data st"
| "on_event M (VoiceReady data) st = voice_ready data st"
| "on_event M (WebrtcOffer data) st = webrtc_offer data st"
| "on_event M (WebrtcAnswer data) st = webrtc_answer data st"
| "on_event M (WebrtcIceCandidate data) st = webrtc_ice_candidate data st"

text \<open>
  \<open>io.use(authenticateSocket)\<close>: a connection whose middleware calls \<open>next\<close> with an
  error is refused with that error and never reaches \<open>io.on('connection')\<close>, so no
  listener exists for it; an accepted one is open until it disconnects.
\<close>

datatype conn = Refused string | Connected socket | Closed

definition handleConnection :: "'db models \<Rightarrow> 'db \<Rightarrow> string \<Rightarrow> string option \<Rightarrow> conn" where
  "handleConnection M d sid token =
     (case authenticateSocket M d sid token of
        Inl err \<Rightarrow> Refused err
      | Inr s \<Rightarrow> Connected s)"

text \<open>
  An event arriving on a connection. Only an accepted, open connection has listeners;
  an exception that escapes a listener is not caught here (\<open>Inl\<close>).
\<close>

definition receive ::
  "'db models \<Rightarrow> event \<Rightarrow> conn \<times> 'db world \<Rightarrow> js_error + (conn \<times> 'db world) \<times> delivery list" where
  "receive M ev = (\<lambda>(c, w).
     case c of
       Connected s \<Rightarrow>
         (case on_event M ev (s, w) of
            Inl e \<Rightarrow> Inl e
          | Inr ((s', w'), out) \<Rightarrow> Inr ((Connected s', w'), out))
     | _ \<Rightarrow> Inr ((c, w), []))"

text \<open>
  The transport takes a closing socket out of every room before the \<open>disconnect\<close>
  listener runs.
\<close>

definition close :: "conn \<times> 'db world \<Rightarrow> (conn \<times> 'db world) \<times> delivery list" where
  "close = (\<lambda>(c, w).
     case c of
       Connected s \<Rightarrow>
         (case disconnect (s, socket_leaveAll s w) of
            ((s', w'), out) \<Rightarrow> ((Closed, w'), out))
     | _ \<Rightarrow> ((c, w), []))"

text \<open>
  The events of one session are handled one after the other, in arrival order; an
  exception that escapes a listener ends the run.
\<close>

fun run :: "'db models \<Rightarrow> event list \<Rightarrow> 'db state \<Rightarrow> js_error + 'db state \<times> delivery list" where
  "run M [] st = Inr (st, [])"
| "run M (ev # evs) st =
     (case on_event M ev st of
        Inl e \<Rightarrow> Inl e
      | Inr (st1, out1) \<Rightarrow>
          (case run M evs st1 of
             Inl e \<Rightarrow> Inl e
           | Inr (st2, out2) \<Rightarrow> Inr (st2, out1 @ out2)))"

text \<open>
  A session is consistent with the live rooms when the room code it records, if any,
  names a room its socket is in. Joining establishes this and no handler breaks it.
\<close>

definition joined :: "'db state \<Rightarrow> bool" where
  "joined = (\<lambda>(s, w). case roomCode s of None \<Rightarrow> True | Some c \<Rightarrow> sock_id s \<in> rooms w c)"

section \<open>A reference store and a scenario\<close>

text \<open>
  Modelled from the spec: an in-memory stand-in for the store behind the Mongoose
  models (which are not part of the sources at hand), used to run the handlers on
  concrete scenarios. Every operation throws while the store is down; a chat row needs
  a text body; a token is accepted when it starts with \<open>jwt:\<close> and names the
  identity after that.
\<close>

record mem_db =
  mem_up :: bool
  mem_users :: "user list"
  mem_rooms :: "room list"
  mem_boards :: "board list"
  mem_cleared :: "(string \<times> string) list"
  mem_chats :: "chat list"

definition mem_populate :: "mem_db \<Rightarrow> chat \<Rightarrow> populated_chat option" where
  "mem_populate d ch =
     (case find (\<lambda>u. user_oid u = chat_sender ch) (mem_users d) of
        None \<Rightarrow> None
      | Some u \<Rightarrow>
          Some \<lparr>p_oid = chat_oid ch, p_roomId = chat_roomId ch, p_sender = u,
                p_message = chat_msg ch, p_createdAt = chat_createdAt ch\<rparr>)"

definition mem_create :: "chat_input \<Rightarrow> mem_db \<Rightarrow> (js_error + chat) \<times> mem_db" where
  "mem_create inp d =
     (if \<not> mem_up d then (Inl StoreError, d)
      else case in_message inp of
             JStr txt \<Rightarrow>
               let ch = \<lparr>chat_oid = ''c'' @ show_nat (length (mem_chats d)),
                         chat_roomId = in_roomId inp, chat_sender = in_sender inp,
                         chat_msg = JStr txt,
                         chat_createdAt = length (mem_chats d)\<rparr>
               in (Inr ch, d\<lparr>mem_chats := mem_chats d @ [ch]\<rparr>)
           | _ \<Rightarrow> (Inl StoreError, d))"

definition mem_models :: "mem_db models" where
  "mem_models =
     \<lparr>jwt_verify = (\<lambda>t. if take 4 t = ''jwt:'' then Inr (JObj [(''_id'', JStr (drop 4 t))])
                         else Inl TokenError),
      User_findById = (\<lambda>uid d.
         if \<not> mem_up d then Inl StoreError
         else case uid of
                JStr i \<Rightarrow> Inr (find (\<lambda>u. user_oid u = i) (mem_users d))
              | _ \<Rightarrow> Inr None),
      Room_findOne = (\<lambda>code d.
         if \<not> mem_up d then Inl StoreError
         else Inr (find (\<lambda>r. roomId r = code) (mem_rooms d))),
      Board_findOne = (\<lambda>oid d.
         if \<not> mem_up d then Inl StoreError
         else Inr (find (\<lambda>b. board_roomId b = oid) (mem_boards d))),
      clearBoard = (\<lambda>b uid d.
         if \<not> mem_up d then (Inl StoreError, d)
         else (Inr (), d\<lparr>mem_cleared := mem_cleared d @ [(board_oid b, uid)]\<rparr>)),
      Chat_create = mem_create,
      Chat_findById_populate = (\<lambda>i d.
         if \<not> mem_up d then Inl StoreError
         else case find (\<lambda>ch. chat_oid ch = i) (mem_chats d) of
                None \<Rightarrow> Inr None
              | Some ch \<Rightarrow> Inr (mem_populate d ch))\<rparr>"

text \<open>
  The scenario: alice, bob and carol are known identities. Room \<open>ROOM42\<close> authorises
  alice and carol and has a board; room \<open>ROOM7\<close> authorises alice and bob and has no
  board. Alice's socket \<open>sa\<close> and carol's socket \<open>sc\<close> have joined \<open>ROOM42\<close>; a
  socket \<open>sd\<close> sits in \<open>ROOM7\<close>; bob's socket \<open>sb\<close> has joined nothing.
\<close>

definition alice :: user where
  "alice = \<lparr>user_oid = ''u1'', username = ''alice'', avatar = JStr ''alice.png''\<rparr>"

definition bob :: user where
  "bob = \<lparr>user_oid = ''u2'', username = ''bob'', avatar = JUndefined\<rparr>"

definition carol :: user where
  "carol = \<lparr>user_oid = ''u3'', username = ''carol'', avatar = JNull\<rparr>"

definition db0 :: mem_db where
  "db0 =
     \<lparr>mem_up = True,
      mem_users = [alice, bob, carol],
      mem_rooms = [\<lparr>room_oid = ''r1'', roomId = ''ROOM42'', participants = [''u1'', ''u3'']\<rparr>,
                   \<lparr>room_oid = ''r2'', roomId = ''ROOM7'', participants = [''u1'', ''u2'']\<rparr>],
      mem_boards = [\<lparr>board_oid = ''b1'', board_roomId = ''r1''\<rparr>],
      mem_cleared = [],
      mem_chats = []\<rparr>"

definition w0 :: "mem_db world" where
  "w0 = \<lparr>rooms = (\<lambda>r. if r = ''ROOM42'' then {''sa'', ''sc''}
                       else if r = ''ROOM7'' then {''sd''} else {}),
          db = db0\<rparr>"

definition alice_sock :: socket where
  "alice_sock = \<lparr>sock_id = ''sa'', userId = ''u1'', user = alice, roomCode = Some ''ROOM42''\<rparr>"

definition carol_sock :: socket where
  "carol_sock = \<lparr>sock_id = ''sc'', userId = ''u3'', user = carol, roomCode = Some ''ROOM42''\<rparr>"

definition bob_sock :: socket where
  "bob_sock = \<lparr>sock_id = ''sb'', userId = ''u2'', user = bob, roomCode = None\<rparr>"

section \<open>Unfolding rules\<close>

lemmas handler_defs =
  drawing_update_def chat_message_def voice_toggle_def voice_ready_def webrtc_relay_def
  webrtc_offer_def webrtc_answer_def webrtc_ice_candidate_def

lemmas emit_defs = socket_emit_def socket_to_emit_def io_to_emit_def

lemmas scenario_defs =
  alice_def bob_def carol_def db0_def w0_def alice_sock_def bob_sock_def carol_sock_def
  mem_models_def mem_create_def mem_populate_def active_room_def

section \<open>Facts about the handlers\<close>

lemma map_of_set_prop: "map_of (set_prop fs k v) = (map_of fs)(k \<mapsto> v)"
  by (simp add: set_prop_def update_conv')

lemma drawing_update_other_kind:
  assumes "active_room s = Some c" and "get_prop data ''type'' \<noteq> Inr (JStr ''clear'')"
  shows "fst (drawing_update M data (s, w)) = (s, w)"
    and "drawing_update M' data (s, w) = drawing_update M data (s, w)"
  using assms by (auto simp: drawing_update_def Let_def split: sum.splits)

lemma run_replicate_fixed:
  assumes "on_event M ev st = Inr (st, out)"
  shows "run M (replicate n ev) st = Inr (st, concat (replicate n out))"
  using assms by (induction n) simp_all

lemma connected_joined:
  assumes "handleConnection M d sid token = Connected s"
  shows "roomCode s = None \<and> joined (s, w)"
  using assms
  by (auto simp: handleConnection_def authenticateSocket_def joined_def
           split: option.splits sum.splits if_splits)

lemma on_event_joined:
  assumes "joined st" and "on_event M ev st = Inr (st', out)"
  shows "joined st'"
proof (cases st)
  case (Pair s w)
  with assms show ?thesis
    by (cases ev)
       (auto simp: joined_def join_room_def socket_join_def handler_defs Let_def
             split: sum.splits option.splits prod.splits if_splits)
qed

lemma run_joined:
  assumes "joined st" and "run M evs st = Inr (st', out)"
  shows "joined st'"
  using assms
proof (induction evs arbitrary: st out)
  case Nil
  then show ?case by simp
next
  case (Cons ev evs)
  then show ?case
    by (auto split: sum.splits prod.splits dest: on_event_joined)
qed

lemma room_scoped_targets:
  assumes "active_room s = Some c" and "room_scoped ev"
      and "on_event M ev (s, w) = Inr ((s', w'), out)"
  shows "s' = s \<and> rooms w' = rooms w \<and>
         (\<forall>d \<in> set out. fst d = rooms w c - {sock_id s} \<or> fst d = rooms w c \<or> fst d = {sock_id s})"
  using assms
  by (cases ev)
     (auto simp: handler_defs emit_defs Let_def
           split: sum.splits option.splits prod.splits if_splits)



section \<open>The scenario, evaluated\<close>



lemma scenario_room7:
  "Room_findOne mem_models ''ROOM7'' (db w0)
     = Inr (Some \<lparr>room_oid = ''r2'', roomId = ''ROOM7'', participants = [''u1'', ''u2'']\<rparr>)"
  by (simp add: mem_models_def w0_def db0_def)

lemma scenario_switch:
  "join_room mem_models ''ROOM7'' (alice_sock, w0)
     = ((alice_sock\<lparr>roomCode := Some ''ROOM7''\<rparr>, socket_join alice_sock ''ROOM7'' w0),
        [({''sd''}, ''user-joined'',
          JObj [(''userId'', JStr ''u1''), (''username'', JStr ''alice''),
                (''avatar'', JStr ''alice.png'')])])"
  by (auto simp: join_room_def Let_def mem_models_def w0_def db0_def alice_sock_def alice_def
        socket_join_def socket_to_emit_def)

lemma scenario_after_switch:
  "voice_ready JUndefined (alice_sock\<lparr>roomCode := Some ''ROOM7''\<rparr>, socket_join alice_sock ''ROOM7'' w0)
     = Inr ((alice_sock\<lparr>roomCode := Some ''ROOM7''\<rparr>, socket_join alice_sock ''ROOM7'' w0),
            [({''sd''}, ''voice-ready'',
              JObj [(''userId'', JStr ''u1''), (''username'', JStr ''alice'')])])"
  by (auto simp: voice_ready_def active_room_def alice_sock_def alice_def socket_to_emit_def
        socket_join_def w0_def)

lemma scenario_carol_voice_ready:
  "voice_ready JUndefined (carol_sock, socket_join alice_sock ''ROOM7'' w0)
     = Inr ((carol_sock, socket_join alice_sock ''ROOM7'' w0),
            [({''sa''}, ''voice-ready'',
              JObj [(''userId'', JStr ''u3''), (''username'', JStr ''carol'')])])"
  by (auto simp: voice_ready_def active_room_def carol_sock_def carol_def socket_to_emit_def
        socket_join_def w0_def alice_sock_def)

lemma scenario_voice_ready:
  "run mem_models [VoiceReady JUndefined] (alice_sock, w0)
     = Inr ((alice_sock, w0),
            [({''sc''}, ''voice-ready'',
              JObj [(''userId'', JStr ''u1''), (''username'', JStr ''alice'')])])"
  by (auto simp: voice_ready_def active_room_def alice_sock_def alice_def socket_to_emit_def
        w0_def)

section \<open>Events without an active room\<close>

text \<open>
  Claim C6. A room-scoped event (drawing-update, chat-message, voice-toggle, voice-ready,
  webrtc-offer, webrtc-answer, webrtc-ice-candidate) from a session without an active
  room is dropped: the handler returns normally, session, live rooms and store are what
  they were, and nothing is delivered to anyone, the sender included.
\<close>

theorem no_active_room_dropped:
  assumes "active_room s = None" and "room_scoped ev"
  shows "on_event M ev (s, w) = Inr ((s, w), []) \<and>
         receive M ev (Connected s, w) = Inr ((Connected s, w), [])"
  using assms by (cases ev) (simp_all add: handler_defs receive_def)

theorem no_active_room_dropped_witness:
  "active_room bob_sock = None \<and> room_scoped (ChatMessage (JObj [(''text'', JStr ''hi'')])) \<and>
   on_event mem_models (ChatMessage (JObj [(''text'', JStr ''hi'')])) (bob_sock, w0)
     = Inr ((bob_sock, w0), []) \<and>
   receive mem_models (ChatMessage (JObj [(''text'', JStr ''hi'')])) (Connected bob_sock, w0)
     = Inr ((Connected bob_sock, w0), [])"
  using no_active_room_dropped
    [of bob_sock "ChatMessage (JObj [(''text'', JStr ''hi'')])" mem_models w0]
  by (simp add: active_room_def bob_sock_def)

section \<open>Authentication\<close>

text \<open>
  Claim C7. A connection attempt whose token is missing (or empty), whose token fails
  verification, or whose verified identity is not in the user store, ends in the one
  result \<open>Authentication error\<close>; so does every other failure of the middleware. A
  failed attempt is refused and has no listener: any event on it changes nothing and
  delivers nothing. A successful attempt yields a socket tagged with the id and the
  record of the user the store returned for the verified token, with no room recorded.
\<close>

theorem authenticate_generic_failure:
  "(token = None \<or> token = Some [] \<longrightarrow>
      authenticateSocket M d sid token = Inl ''Authentication error'') \<and>
   (\<forall>t e. token = Some t \<and> jwt_verify M t = Inl e \<longrightarrow>
      authenticateSocket M d sid token = Inl ''Authentication error'') \<and>
   (\<forall>t decoded uid. token = Some t \<and> jwt_verify M t = Inr decoded \<and>
        get_prop decoded ''_id'' = Inr uid \<and> User_findById M uid d = Inr None \<longrightarrow>
      authenticateSocket M d sid token = Inl ''Authentication error'') \<and>
   (\<forall>err. authenticateSocket M d sid token = Inl err \<longrightarrow>
      err = ''Authentication error'' \<and>
      handleConnection M d sid token = Refused ''Authentication error'' \<and>
      (\<forall>ev w. receive M ev (handleConnection M d sid token, w)
                = Inr ((handleConnection M d sid token, w), []))) \<and>
   (\<forall>s. authenticateSocket M d sid token = Inr s \<longrightarrow>
      handleConnection M d sid token = Connected s \<and>
      (\<exists>t decoded uid u. token = Some t \<and> t \<noteq> [] \<and> jwt_verify M t = Inr decoded \<and>
         get_prop decoded ''_id'' = Inr uid \<and> User_findById M uid d = Inr (Some u) \<and>
         s = \<lparr>sock_id = sid, userId = user_oid u, user = u, roomCode = None\<rparr>))"
  by (auto simp: authenticateSocket_def handleConnection_def receive_def
           split: option.splits sum.splits if_splits)

theorem authenticate_generic_failure_witness:
  "authenticateSocket mem_models db0 ''sx'' None = Inl ''Authentication error'' \<and>
   authenticateSocket mem_models db0 ''sx'' (Some ''forged'') = Inl ''Authentication error'' \<and>
   authenticateSocket mem_models db0 ''sx'' (Some ''jwt:u9'') = Inl ''Authentication error'' \<and>
   handleConnection mem_models db0 ''sx'' (Some ''jwt:u9'') = Refused ''Authentication error'' \<and>
   receive mem_models (JoinRoom ''ROOM42'')
       (handleConnection mem_models db0 ''sx'' (Some ''jwt:u9''), w0)
     = Inr ((handleConnection mem_models db0 ''sx'' (Some ''jwt:u9''), w0), []) \<and>
   handleConnection mem_models db0 ''sx'' (Some ''jwt:u2'')
     = Connected \<lparr>sock_id = ''sx'', userId = ''u2'', user = bob, roomCode = None\<rparr>"
proof -
  have forged: "jwt_verify mem_models ''forged'' = Inl TokenError"
    by (simp add: mem_models_def)
  have signed: "jwt_verify mem_models ''jwt:u9'' = Inr (JObj [(''_id'', JStr ''u9'')])"
    by (simp add: mem_models_def)
  have ident: "get_prop (JObj [(''_id'', JStr ''u9'')]) ''_id'' = Inr (JStr ''u9'')"
    by simp
  have unknown: "User_findById mem_models (JStr ''u9'') db0 = Inr None"
    by (simp add: mem_models_def db0_def alice_def bob_def carol_def)
  have known: "authenticateSocket mem_models db0 ''sx'' (Some ''jwt:u2'')
      = Inr \<lparr>sock_id = ''sx'', userId = ''u2'', user = bob, roomCode = None\<rparr>"
    by (simp add: authenticateSocket_def mem_models_def db0_def alice_def bob_def carol_def)
  have 1: "authenticateSocket mem_models db0 ''sx'' None = Inl ''Authentication error''"
    using authenticate_generic_failure
      [where token = None and M = mem_models and d = db0 and sid = "''sx''"]
    by blast
  have 2: "authenticateSocket mem_models db0 ''sx'' (Some ''forged'') = Inl ''Authentication error''"
    using authenticate_generic_failure
      [where token = "Some ''forged''" and M = mem_models and d = db0 and sid = "''sx''"] forged
    by blast
  note u9 = authenticate_generic_failure
      [where token = "Some ''jwt:u9''" and M = mem_models and d = db0 and sid = "''sx''"]
  have 3: "authenticateSocket mem_models db0 ''sx'' (Some ''jwt:u9'') = Inl ''Authentication error''"
    using u9 signed ident unknown by blast
  have 4: "handleConnection mem_models db0 ''sx'' (Some ''jwt:u9'') = Refused ''Authentication error''"
    using u9 3 by blast
  have 5: "receive mem_models (JoinRoom ''ROOM42'')
       (handleConnection mem_models db0 ''sx'' (Some ''jwt:u9''), w0)
     = Inr ((handleConnection mem_models db0 ''sx'' (Some ''jwt:u9''), w0), [])"
    using u9 3 by blast
  have 6: "handleConnection mem_models db0 ''sx'' (Some ''jwt:u2'')
     = Connected \<lparr>sock_id = ''sx'', userId = ''u2'', user = bob, roomCode = None\<rparr>"
    using authenticate_generic_failure
      [where token = "Some ''jwt:u2''" and M = mem_models and d = db0 and sid = "''sx''"] known
    by blast
  from 1 2 3 4 5 6 show ?thesis by blast
qed

section \<open>Joining a room\<close>

text \<open>
  Claim C2. When the room code names no room, or the session's identity is not among
  the room's participants, join-room emits one error packet addressed to the requesting
  socket alone (\<open>Room not found\<close>, resp. \<open>Access denied\<close>); the session, the live
  rooms and the store are unchanged, no other socket receives anything (so no
  user-joined notice), and the connection stays open.
\<close>

theorem join_room_rejected:
  assumes "Room_findOne M code (db w) = Inr None \<or>
           (\<exists>rm. Room_findOne M code (db w) = Inr (Some rm) \<and> userId s \<notin> set (participants rm))"
  shows "receive M (JoinRoom code) (Connected s, w) =
           Inr ((Connected s, w),
                [({sock_id s}, ''error'',
                  JStr (if Room_findOne M code (db w) = Inr None then ''Room not found''
                        else ''Access denied''))]) \<and>
         (\<forall>t. t \<noteq> sock_id s \<longrightarrow> received t (snd (join_room M code (s, w))) = [])"
  using assms
  by (auto simp: receive_def join_room_def socket_emit_def received_def)

theorem join_room_rejected_witness:
  "Room_findOne mem_models ''NOPE'' (db w0) = Inr None \<and>
   receive mem_models (JoinRoom ''NOPE'') (Connected bob_sock, w0)
     = Inr ((Connected bob_sock, w0), [({''sb''}, ''error'', JStr ''Room not found'')]) \<and>
   userId bob_sock \<notin> set [''u1'', ''u3''] \<and>
   receive mem_models (JoinRoom ''ROOM42'') (Connected bob_sock, w0)
     = Inr ((Connected bob_sock, w0), [({''sb''}, ''error'', JStr ''Access denied'')]) \<and>
   received ''sa'' (snd (join_room mem_models ''ROOM42'' (bob_sock, w0))) = []"
  using join_room_rejected [of mem_models "''NOPE''" w0 bob_sock]
    join_room_rejected [of mem_models "''ROOM42''" w0 bob_sock]
  by (simp add: scenario_defs)

text \<open>
  Claim C3. When the room exists and the session's identity is among its participants,
  join-room records the code on the session, adds the socket to the live room and leaves
  every other room and the store alone; the one packet emitted is a user-joined notice
  with the joiner's userId, username and avatar, which every other socket of the room
  receives and the joining socket does not.
\<close>

theorem join_room_success:
  assumes "Room_findOne M code (db w) = Inr (Some rm)"
      and "userId s \<in> set (participants rm)"
  shows "\<exists>w'. join_room M code (s, w) =
           ((s\<lparr>roomCode := Some code\<rparr>, w'),
            [(rooms w' code - {sock_id s}, ''user-joined'',
              JObj [(''userId'', JStr (userId s)),
                    (''username'', JStr (username (user s))),
                    (''avatar'', avatar (user s))])]) \<and>
           rooms w' code = insert (sock_id s) (rooms w code) \<and>
           (\<forall>r. r \<noteq> code \<longrightarrow> rooms w' r = rooms w r) \<and>
           db w' = db w \<and>
           received (sock_id s) (snd (join_room M code (s, w))) = [] \<and>
           (\<forall>t \<in> rooms w' code. t \<noteq> sock_id s \<longrightarrow>
              received t (snd (join_room M code (s, w))) =
                [(''user-joined'',
                  JObj [(''userId'', JStr (userId s)),
                        (''username'', JStr (username (user s))),
                        (''avatar'', avatar (user s))])])"
  using assms
  by (auto simp: join_room_def socket_join_def socket_to_emit_def received_def Let_def)

theorem join_room_success_witness:
  "Room_findOne mem_models ''ROOM7'' (db w0)
     = Inr (Some \<lparr>room_oid = ''r2'', roomId = ''ROOM7'', participants = [''u1'', ''u2'']\<rparr>) \<and>
   userId bob_sock \<in> set [''u1'', ''u2''] \<and>
   roomCode (fst (fst (join_room mem_models ''ROOM7'' (bob_sock, w0)))) = Some ''ROOM7'' \<and>
   rooms (snd (fst (join_room mem_models ''ROOM7'' (bob_sock, w0)))) ''ROOM7'' = {''sb'', ''sd''} \<and>
   received ''sb'' (snd (join_room mem_models ''ROOM7'' (bob_sock, w0))) = [] \<and>
   received ''sd'' (snd (join_room mem_models ''ROOM7'' (bob_sock, w0)))
     = [(''user-joined'',
         JObj [(''userId'', JStr ''u2''), (''username'', JStr ''bob''), (''avatar'', JUndefined)])]"
  using join_room_success [of mem_models "''ROOM7''" w0
      "\<lparr>room_oid = ''r2'', roomId = ''ROOM7'', participants = [''u1'', ''u2'']\<rparr>" bob_sock]
  by (simp add: scenario_defs join_room_def socket_join_def socket_to_emit_def received_def)

section \<open>Disconnecting\<close>

text \<open>
  Claim C8. When a session with an active room (a recorded, non-empty room code: the
  handler's test is \<open>if (socket.roomCode)\<close>) disconnects, every socket remaining in
  that room receives exactly one packet, the user-left notice with the departing userId
  and username, and nobody else receives anything. A session that never joined has no
  room code recorded, and its disconnect delivers nothing.
\<close>

theorem disconnect_user_left:
  "(\<forall>c. active_room s = Some c \<longrightarrow>
      close (Connected s, w) =
        ((Closed, socket_leaveAll s w),
         [(rooms w c - {sock_id s}, ''user-left'',
           JObj [(''userId'', JStr (userId s)), (''username'', JStr (username (user s)))])]) \<and>
      (\<forall>t \<in> rooms w c - {sock_id s}.
         received t (snd (close (Connected s, w))) =
           [(''user-left'',
             JObj [(''userId'', JStr (userId s)), (''username'', JStr (username (user s)))])]) \<and>
      (\<forall>t. t \<notin> rooms w c - {sock_id s} \<longrightarrow> received t (snd (close (Connected s, w))) = [])) \<and>
   (roomCode s = None \<longrightarrow>
      close (Connected s, w) = ((Closed, socket_leaveAll s w), []) \<and>
      snd (disconnect (s, w)) = [])"
  by (auto simp: close_def disconnect_def socket_leaveAll_def socket_to_emit_def received_def
        active_room_def)

theorem disconnect_user_left_witness:
  "active_room alice_sock = Some ''ROOM42'' \<and>
   ''sc'' \<in> rooms w0 ''ROOM42'' - {sock_id alice_sock} \<and>
   received ''sc'' (snd (close (Connected alice_sock, w0)))
     = [(''user-left'', JObj [(''userId'', JStr ''u1''), (''username'', JStr ''alice'')])] \<and>
   received ''sa'' (snd (close (Connected alice_sock, w0))) = [] \<and>
   received ''sd'' (snd (close (Connected alice_sock, w0))) = [] \<and>
   roomCode bob_sock = None \<and>
   close (Connected bob_sock, w0) = ((Closed, socket_leaveAll bob_sock w0), [])"
proof -
  have a: "active_room alice_sock = Some ''ROOM42''"
    by (simp add: active_room_def alice_sock_def)
  have sc: "''sc'' \<in> rooms w0 ''ROOM42'' - {sock_id alice_sock}"
   and sa: "''sa'' \<notin> rooms w0 ''ROOM42'' - {sock_id alice_sock}"
   and sd: "''sd'' \<notin> rooms w0 ''ROOM42'' - {sock_id alice_sock}"
    by (simp_all add: w0_def alice_sock_def)
  have b: "roomCode bob_sock = None"
    by (simp add: bob_sock_def)
  have ids: "userId alice_sock = ''u1''" "username (user alice_sock) = ''alice''"
    by (simp_all add: alice_sock_def alice_def)
  note left = disconnect_user_left [of alice_sock w0]
  have 1: "received ''sc'' (snd (close (Connected alice_sock, w0)))
          = [(''user-left'', JObj [(''userId'', JStr (userId alice_sock)),
                                   (''username'', JStr (username (user alice_sock)))])]"
    using left a sc by blast
  have 2: "received ''sa'' (snd (close (Connected alice_sock, w0))) = []"
    using left a sa by blast
  have 3: "received ''sd'' (snd (close (Connected alice_sock, w0))) = []"
    using left a sd by blast
  have 4: "close (Connected bob_sock, w0) = ((Closed, socket_leaveAll bob_sock w0), [])"
    using disconnect_user_left [of bob_sock w0] b by blast
  from a sc 1 2 3 b 4 show ?thesis
    by (simp only: ids simp_thms)
qed

section \<open>Drawing updates\<close>

text \<open>
  Claim C4. A drawing-update from a session with an active room is relayed first, to the
  sockets of that room other than the sender, as the client's payload with \<open>userId\<close>
  set to the session's identity: whatever \<open>userId\<close> the client supplied is overwritten
  and every other field is kept. The session and the live rooms are unchanged. When the
  sub-kind is not \<open>clear\<close> (a cursor update, for one) the store is not touched: the
  state after the handler is the state before, the result does not depend on the store
  operations at all, and this stays so however many times the update is sent.
\<close>

theorem drawing_update_relay:
  assumes "active_room s = Some c"
  shows "(\<exists>rest. snd (drawing_update M data (s, w)) =
            (rooms w c - {sock_id s}, ''drawing-update'',
             JObj (set_prop (spread data) ''userId'' (JStr (userId s)))) # rest \<and>
            (rest = [] \<or> rest = [({sock_id s}, ''error'', JStr ''Failed to update drawing'')])) \<and>
         get_prop (JObj (set_prop (spread data) ''userId'' (JStr (userId s)))) ''userId''
           = Inr (JStr (userId s)) \<and>
         (\<forall>k. k \<noteq> ''userId'' \<longrightarrow>
            map_of (set_prop (spread data) ''userId'' (JStr (userId s))) k = map_of (spread data) k) \<and>
         fst (fst (drawing_update M data (s, w))) = s \<and>
         rooms (snd (fst (drawing_update M data (s, w)))) = rooms w \<and>
         (get_prop data ''type'' \<noteq> Inr (JStr ''clear'') \<longrightarrow>
            fst (drawing_update M data (s, w)) = (s, w) \<and>
            (\<forall>M'. drawing_update M' data (s, w) = drawing_update M data (s, w)) \<and>
            (\<forall>n. run M (replicate n (DrawingUpdate data)) (s, w) =
                   Inr ((s, w), concat (replicate n (snd (drawing_update M data (s, w)))))))"
proof (intro conjI impI allI)
  show "\<exists>rest. snd (drawing_update M data (s, w)) =
            (rooms w c - {sock_id s}, ''drawing-update'',
             JObj (set_prop (spread data) ''userId'' (JStr (userId s)))) # rest \<and>
            (rest = [] \<or> rest = [({sock_id s}, ''error'', JStr ''Failed to update drawing'')])"
    using assms
    by (auto simp: drawing_update_def Let_def emit_defs split: sum.splits option.splits prod.splits)
  show "get_prop (JObj (set_prop (spread data) ''userId'' (JStr (userId s)))) ''userId''
           = Inr (JStr (userId s))"
    by (simp add: map_of_set_prop)
  show "fst (fst (drawing_update M data (s, w))) = s"
    using assms
    by (auto simp: drawing_update_def Let_def split: sum.splits option.splits prod.splits)
  show "rooms (snd (fst (drawing_update M data (s, w)))) = rooms w"
    using assms
    by (auto simp: drawing_update_def Let_def split: sum.splits option.splits prod.splits)
next
  fix k :: string
  assume "k \<noteq> ''userId''"
  then show "map_of (set_prop (spread data) ''userId'' (JStr (userId s))) k = map_of (spread data) k"
    by (simp add: map_of_set_prop)
next
  assume other: "get_prop data ''type'' \<noteq> Inr (JStr ''clear'')"
  show same: "fst (drawing_update M data (s, w)) = (s, w)"
    by (rule drawing_update_other_kind(1) [OF assms other])
  show "drawing_update M' data (s, w) = drawing_update M data (s, w)" for M'
    by (rule drawing_update_other_kind(2) [OF assms other])
  have "on_event M (DrawingUpdate data) (s, w) = Inr ((s, w), snd (drawing_update M data (s, w)))"
    using same by (simp add: prod_eq_iff)
  then show "run M (replicate n (DrawingUpdate data)) (s, w) =
                   Inr ((s, w), concat (replicate n (snd (drawing_update M data (s, w)))))" for n
    by (rule run_replicate_fixed)
qed

theorem drawing_update_relay_witness:
  "active_room alice_sock = Some ''ROOM42'' \<and>
   get_prop (JObj [(''type'', JStr ''cursor''), (''x'', JNum 3), (''userId'', JStr ''u3'')]) ''type''
     \<noteq> Inr (JStr ''clear'') \<and>
   drawing_update mem_models
       (JObj [(''type'', JStr ''cursor''), (''x'', JNum 3), (''userId'', JStr ''u3'')])
       (alice_sock, w0)
     = ((alice_sock, w0),
        [({''sc''}, ''drawing-update'',
          JObj [(''type'', JStr ''cursor''), (''x'', JNum 3), (''userId'', JStr ''u1'')])]) \<and>
   run mem_models
       (replicate 3 (DrawingUpdate
          (JObj [(''type'', JStr ''cursor''), (''x'', JNum 3), (''userId'', JStr ''u3'')])))
       (alice_sock, w0)
     = Inr ((alice_sock, w0),
            concat (replicate 3
              [({''sc''}, ''drawing-update'',
                JObj [(''type'', JStr ''cursor''), (''x'', JNum 3), (''userId'', JStr ''u1'')])]))"
proof -
  let ?data = "JObj [(''type'', JStr ''cursor''), (''x'', JNum 3), (''userId'', JStr ''u3'')]"
  have a: "active_room alice_sock = Some ''ROOM42''"
    by (simp add: active_room_def alice_sock_def)
  have k: "get_prop ?data ''type'' \<noteq> Inr (JStr ''clear'')"
    by simp
  have once: "drawing_update mem_models ?data (alice_sock, w0)
     = ((alice_sock, w0),
        [({''sc''}, ''drawing-update'',
          JObj [(''type'', JStr ''cursor''), (''x'', JNum 3), (''userId'', JStr ''u1'')])])"
    by (simp add: drawing_update_def active_room_def alice_sock_def w0_def socket_to_emit_def
          set_prop_def)
  from drawing_update_relay [OF a, of mem_models ?data w0] k
  have "run mem_models (replicate 3 (DrawingUpdate ?data)) (alice_sock, w0) =
          Inr ((alice_sock, w0),
               concat (replicate 3 (snd (drawing_update mem_models ?data (alice_sock, w0)))))"
    by blast
  with a k once show ?thesis
    by (simp only: snd_conv simp_thms)
qed

text \<open>
  Claim C5, as the spec states it, asks that a failed reset, the board snapshot not being
  found included, is reported to the acting session. A room without a board shows
  otherwise: the clear is relayed to the peers and the actor receives nothing.
\<close>

theorem clear_unreported_counterexample:
  "active_room (alice_sock\<lparr>roomCode := Some ''ROOM7''\<rparr>) = Some ''ROOM7'' \<and>
   Room_findOne mem_models ''ROOM7'' (db w0)
     = Inr (Some \<lparr>room_oid = ''r2'', roomId = ''ROOM7'', participants = [''u1'', ''u2'']\<rparr>) \<and>
   Board_findOne mem_models ''r2'' (db w0) = Inr None \<and>
   drawing_update mem_models (JObj [(''type'', JStr ''clear'')])
       (alice_sock\<lparr>roomCode := Some ''ROOM7''\<rparr>, w0)
     = ((alice_sock\<lparr>roomCode := Some ''ROOM7''\<rparr>, w0),
        [({''sd''}, ''drawing-update'', JObj [(''type'', JStr ''clear''), (''userId'', JStr ''u1'')])]) \<and>
   received ''sa''
       (snd (drawing_update mem_models (JObj [(''type'', JStr ''clear'')])
               (alice_sock\<lparr>roomCode := Some ''ROOM7''\<rparr>, w0)))
     = []"
  by (simp add: drawing_update_def scenario_defs socket_to_emit_def set_prop_def received_def)

text \<open>
  Claim C5, amended. A drawing-update of sub-kind \<open>clear\<close> from a session with an active
  room is relayed to every other socket of the room exactly once, whatever the store
  does. An exception thrown by the room lookup, the board lookup or \<open>clearBoard\<close> is
  reported to the acting session as \<open>Failed to update drawing\<close>; when the room or its
  board is not found the reset is skipped and nothing is reported.
\<close>

theorem clear_relayed_once:
  assumes "active_room s = Some c"
      and "get_prop data ''type'' = Inr (JStr ''clear'')"
  shows "\<exists>rest. snd (drawing_update M data (s, w)) =
            (rooms w c - {sock_id s}, ''drawing-update'',
             JObj (set_prop (spread data) ''userId'' (JStr (userId s)))) # rest \<and>
          (\<forall>t \<in> rooms w c - {sock_id s}.
             filter (\<lambda>p. fst p = ''drawing-update'') (received t (snd (drawing_update M data (s, w))))
               = [(''drawing-update'',
                   JObj (set_prop (spread data) ''userId'' (JStr (userId s))))]) \<and>
          rest =
            (case Room_findOne M c (db w) of
               Inl e \<Rightarrow> [({sock_id s}, ''error'', JStr ''Failed to update drawing'')]
             | Inr None \<Rightarrow> []
             | Inr (Some rm) \<Rightarrow>
                 (case Board_findOne M (room_oid rm) (db w) of
                    Inl e \<Rightarrow> [({sock_id s}, ''error'', JStr ''Failed to update drawing'')]
                  | Inr None \<Rightarrow> []
                  | Inr (Some b) \<Rightarrow>
                      (case fst (clearBoard M b (userId s) (db w)) of
                         Inl e \<Rightarrow> [({sock_id s}, ''error'', JStr ''Failed to update drawing'')]
                       | Inr u \<Rightarrow> [])))"
  using assms
  by (auto simp: drawing_update_def Let_def emit_defs received_def
           split: sum.splits option.splits prod.splits)

theorem clear_relayed_once_witness:
  "active_room alice_sock = Some ''ROOM42'' \<and>
   get_prop (JObj [(''type'', JStr ''clear'')]) ''type'' = Inr (JStr ''clear'') \<and>
   ''sc'' \<in> rooms (w0\<lparr>db := db0\<lparr>mem_up := False\<rparr>\<rparr>) ''ROOM42'' - {sock_id alice_sock} \<and>
   filter (\<lambda>p. fst p = ''drawing-update'')
       (received ''sc''
          (snd (drawing_update mem_models (JObj [(''type'', JStr ''clear'')])
                  (alice_sock, w0\<lparr>db := db0\<lparr>mem_up := False\<rparr>\<rparr>))))
     = [(''drawing-update'', JObj [(''type'', JStr ''clear''), (''userId'', JStr ''u1'')])] \<and>
   snd (drawing_update mem_models (JObj [(''type'', JStr ''clear'')])
          (alice_sock, w0\<lparr>db := db0\<lparr>mem_up := False\<rparr>\<rparr>))
     = [({''sc''}, ''drawing-update'', JObj [(''type'', JStr ''clear''), (''userId'', JStr ''u1'')]),
        ({''sa''}, ''error'', JStr ''Failed to update drawing'')]"
proof -
  let ?data = "JObj [(''type'', JStr ''clear'')]"
  let ?w = "w0\<lparr>db := db0\<lparr>mem_up := False\<rparr>\<rparr>"
  have a: "active_room alice_sock = Some ''ROOM42''"
    by (simp add: active_room_def alice_sock_def)
  have k: "get_prop ?data ''type'' = Inr (JStr ''clear'')"
    by simp
  have sc: "''sc'' \<in> rooms ?w ''ROOM42'' - {sock_id alice_sock}"
    by (simp add: w0_def alice_sock_def)
  have down: "Room_findOne mem_models ''ROOM42'' (db ?w) = Inl StoreError"
    by (simp add: mem_models_def)
  have relay: "rooms w0 ''ROOM42'' - {''sa''} = {''sc''}"
    by (auto simp: w0_def)
  have payload: "set_prop [(''type'', JStr ''clear'')] ''userId'' (JStr (userId alice_sock))
      = [(''type'', JStr ''clear''), (''userId'', JStr ''u1'')]"
    by (simp add: set_prop_def alice_sock_def)
  have sid: "sock_id alice_sock = ''sa''"
    by (simp add: alice_sock_def)
  from clear_relayed_once [OF a k, of mem_models ?w] sc
  have "filter (\<lambda>p. fst p = ''drawing-update'')
          (received ''sc'' (snd (drawing_update mem_models ?data (alice_sock, ?w))))
        = [(''drawing-update'', JObj (set_prop (spread ?data) ''userId'' (JStr (userId alice_sock))))]"
    by blast
  moreover from clear_relayed_once [OF a k, of mem_models ?w]
  have "snd (drawing_update mem_models ?data (alice_sock, ?w)) =
          [(rooms ?w ''ROOM42'' - {sock_id alice_sock}, ''drawing-update'',
            JObj (set_prop (spread ?data) ''userId'' (JStr (userId alice_sock)))),
           ({sock_id alice_sock}, ''error'', JStr ''Failed to update drawing'')]"
    unfolding down by auto
  ultimately show ?thesis
    using a k sc by (simp add: relay payload sid)
qed

section \<open>Chat messages\<close>



section \<open>Switching rooms\<close>

text \<open>
  Claim C9, as the spec states it, asks that a session joining room B while in room A
  ends up a member of B only and that A's peers receive a leave notice. In the scenario
  alice's socket joins \<open>ROOM7\<close> while in \<open>ROOM42\<close>: it is still in the live set of
  \<open>ROOM42\<close>, carol in \<open>ROOM42\<close> receives nothing at the switch, and carol's next
  voice-ready in \<open>ROOM42\<close> is still delivered to alice's socket.
\<close>

theorem join_switch_counterexample:
  "roomCode alice_sock = Some ''ROOM42'' \<and>
   sock_id alice_sock \<in> rooms w0 ''ROOM42'' \<and>
   join_room mem_models ''ROOM7'' (alice_sock, w0)
     = ((alice_sock\<lparr>roomCode := Some ''ROOM7''\<rparr>, socket_join alice_sock ''ROOM7'' w0),
        [({''sd''}, ''user-joined'',
          JObj [(''userId'', JStr ''u1''), (''username'', JStr ''alice''),
                (''avatar'', JStr ''alice.png'')])]) \<and>
   sock_id alice_sock \<in> rooms (socket_join alice_sock ''ROOM7'' w0) ''ROOM42'' \<and>
   received ''sc'' (snd (join_room mem_models ''ROOM7'' (alice_sock, w0))) = [] \<and>
   voice_ready JUndefined (carol_sock, socket_join alice_sock ''ROOM7'' w0)
     = Inr ((carol_sock, socket_join alice_sock ''ROOM7'' w0),
            [({''sa''}, ''voice-ready'',
              JObj [(''userId'', JStr ''u3''), (''username'', JStr ''carol'')])])"
  unfolding scenario_switch scenario_carol_voice_ready
  by (simp add: received_def) (simp add: alice_sock_def socket_join_def w0_def)

text \<open>
  Claim C9, amended. A session records at most one room code. When a session that records
  room A successfully joins a different room B, the recorded code becomes B, the socket
  is added to B's live membership, B's other sockets receive the user-joined notice, and
  every room-scoped event the session sends from then on is delivered inside B only.
  A's live membership is left as it was and the join emits nothing but the user-joined
  notice to B.
\<close>

theorem join_room_switch:
  assumes "roomCode s = Some a" and "a \<noteq> b"
      and "Room_findOne M b (db w) = Inr (Some rm)"
      and "userId s \<in> set (participants rm)"
      and "join_room M b (s, w) = ((s', w'), out)"
  shows "roomCode s' = Some b \<and> sock_id s' = sock_id s \<and>
         rooms w' b = insert (sock_id s) (rooms w b) \<and>
         rooms w' a = rooms w a \<and>
         out = [(rooms w b - {sock_id s}, ''user-joined'',
                 JObj [(''userId'', JStr (userId s)),
                       (''username'', JStr (username (user s))),
                       (''avatar'', avatar (user s))])] \<and>
         (\<forall>ev s'' w'' out'.
            b \<noteq> [] \<and> room_scoped ev \<and> on_event M ev (s', w') = Inr ((s'', w''), out')
            \<longrightarrow> (\<forall>d \<in> set out'. fst d \<subseteq> rooms w' b))"
proof -
  from assms have st: "s' = s\<lparr>roomCode := Some b\<rparr>" "w' = socket_join s b w"
    and out: "out = [(rooms w b - {sock_id s}, ''user-joined'',
                 JObj [(''userId'', JStr (userId s)),
                       (''username'', JStr (username (user s))),
                       (''avatar'', avatar (user s))])]"
    by (auto simp: join_room_def socket_join_def socket_to_emit_def Let_def)
  have mem: "rooms w' b = insert (sock_id s) (rooms w b)" "rooms w' a = rooms w a"
    using assms(2) by (simp_all add: st socket_join_def)
  have route: "\<forall>d \<in> set out'. fst d \<subseteq> rooms w' b"
    if "b \<noteq> []" "room_scoped ev" "on_event M ev (s', w') = Inr ((s'', w''), out')"
    for ev s'' w'' out'
  proof -
    have "active_room s' = Some b"
      using that(1) by (simp add: st active_room_def)
    from room_scoped_targets [OF this that(2,3)] mem(1) show ?thesis
      by (auto simp: st)
  qed
  show ?thesis
  proof (intro conjI allI impI)
    show "roomCode s' = Some b" and "sock_id s' = sock_id s"
      by (simp_all add: st)
    show "rooms w' b = insert (sock_id s) (rooms w b)" and "rooms w' a = rooms w a"
      by (rule mem)+
    show "out = [(rooms w b - {sock_id s}, ''user-joined'',
                 JObj [(''userId'', JStr (userId s)),
                       (''username'', JStr (username (user s))),
                       (''avatar'', avatar (user s))])]"
      by (rule out)
    show "\<forall>d \<in> set out'. fst d \<subseteq> rooms w' b"
      if "b \<noteq> [] \<and> room_scoped ev \<and> on_event M ev (s', w') = Inr ((s'', w''), out')"
      for ev s'' w'' out'
      using that route [of ev s'' w'' out'] by (elim conjE)
  qed
qed

theorem join_room_switch_witness:
  "roomCode alice_sock = Some ''ROOM42'' \<and> ''ROOM42'' \<noteq> ''ROOM7'' \<and>
   userId alice_sock \<in> set [''u1'', ''u2''] \<and>
   roomCode (alice_sock\<lparr>roomCode := Some ''ROOM7''\<rparr>) = Some ''ROOM7'' \<and>
   rooms (socket_join alice_sock ''ROOM7'' w0) ''ROOM7'' = insert (sock_id alice_sock) (rooms w0 ''ROOM7'') \<and>
   rooms (socket_join alice_sock ''ROOM7'' w0) ''ROOM42'' = rooms w0 ''ROOM42'' \<and>
   sock_id alice_sock \<in> rooms w0 ''ROOM42'' \<and>
   {''sd''} \<subseteq> rooms (socket_join alice_sock ''ROOM7'' w0) ''ROOM7''"
proof -
  have a: "roomCode alice_sock = Some ''ROOM42''" and ne: "''ROOM42'' \<noteq> ''ROOM7''"
   and p: "userId alice_sock \<in> set (participants
             \<lparr>room_oid = ''r2'', roomId = ''ROOM7'', participants = [''u1'', ''u2'']\<rparr>)"
   and m: "sock_id alice_sock \<in> rooms w0 ''ROOM42''"
    by (simp_all add: alice_sock_def w0_def)
  note sw = join_room_switch [OF a ne scenario_room7 p scenario_switch]
  have scoped: "room_scoped (VoiceReady JUndefined)" and b: "''ROOM7'' \<noteq> []"
    by simp_all
  have ev: "on_event mem_models (VoiceReady JUndefined)
              (alice_sock\<lparr>roomCode := Some ''ROOM7''\<rparr>, socket_join alice_sock ''ROOM7'' w0)
            = Inr ((alice_sock\<lparr>roomCode := Some ''ROOM7''\<rparr>, socket_join alice_sock ''ROOM7'' w0),
                   [({''sd''}, ''voice-ready'',
                     JObj [(''userId'', JStr ''u1''), (''username'', JStr ''alice'')])])"
    by (simp add: scenario_after_switch)
  note route = sw [THEN conjunct2, THEN conjunct2, THEN conjunct2, THEN conjunct2, THEN conjunct2,
      rule_format, OF conjI [OF b conjI [OF scoped ev]]]
  have r: "{''sd''} \<subseteq> rooms (socket_join alice_sock ''ROOM7'' w0) ''ROOM7''"
    using route [of "({''sd''}, ''voice-ready'',
                     JObj [(''userId'', JStr ''u1''), (''username'', JStr ''alice'')])"]
    by simp
  note 1 = sw [THEN conjunct1]
   and 2 = sw [THEN conjunct2, THEN conjunct2, THEN conjunct1]
   and 3 = sw [THEN conjunct2, THEN conjunct2, THEN conjunct2, THEN conjunct1]
  from p have p': "userId alice_sock \<in> set [''u1'', ''u2'']"
    by simp
  show ?thesis
    by (intro conjI) (rule a ne p' 1 2 3 m r)+
qed

section \<open>Failed joins\<close>

text \<open>
  Claim C10. A join-room that fails (the room lookup throws, finds no room, or finds a
  room that does not list the session's identity) emits one error packet to the sender
  and leaves session, live rooms and store exactly as they were: the recorded room code
  is still A, every later sequence of events runs as it would have without the attempt,
  and the room-scoped events among them are addressed to room A, to room A without the
  sender, or to the sender alone.
\<close>

theorem failed_join_atomic:
  assumes "roomCode s = Some a"
      and "(\<exists>e. Room_findOne M b (db w) = Inl e) \<or> Room_findOne M b (db w) = Inr None \<or>
           (\<exists>rm. Room_findOne M b (db w) = Inr (Some rm) \<and> userId s \<notin> set (participants rm))"
  shows "(\<exists>m. join_room M b (s, w) = ((s, w), [({sock_id s}, ''error'', JStr m)])) \<and>
         roomCode (fst (fst (join_room M b (s, w)))) = Some a \<and>
         (\<forall>evs. run M evs (fst (join_room M b (s, w))) = run M evs (s, w)) \<and>
         (\<forall>ev s' w' out.
            a \<noteq> [] \<and> room_scoped ev \<and>
            on_event M ev (fst (join_room M b (s, w))) = Inr ((s', w'), out)
            \<longrightarrow> (\<forall>d \<in> set out. fst d = rooms w a - {sock_id s} \<or> fst d = rooms w a \<or>
                                  fst d = {sock_id s}))"
proof -
  from assms(2) have same: "\<exists>m. join_room M b (s, w) = ((s, w), [({sock_id s}, ''error'', JStr m)])"
    by (auto simp: join_room_def socket_emit_def)
  then have st: "fst (join_room M b (s, w)) = (s, w)"
    by auto
  have route: "\<forall>d \<in> set out. fst d = rooms w a - {sock_id s} \<or> fst d = rooms w a \<or>
                                fst d = {sock_id s}"
    if "a \<noteq> []" "room_scoped ev" "on_event M ev (s, w) = Inr ((s', w'), out)"
    for ev s' w' out
  proof -
    have "active_room s = Some a"
      using assms(1) that(1) by (simp add: active_room_def)
    from room_scoped_targets [OF this that(2,3)] show ?thesis
      by simp
  qed
  show ?thesis
    using same route assms(1) by (simp add: st, blast)
qed

theorem failed_join_atomic_witness:
  "roomCode alice_sock = Some ''ROOM42'' \<and>
   Room_findOne mem_models ''NOPE'' (db w0) = Inr None \<and>
   roomCode (fst (fst (join_room mem_models ''NOPE'' (alice_sock, w0)))) = Some ''ROOM42'' \<and>
   run mem_models [VoiceReady JUndefined] (fst (join_room mem_models ''NOPE'' (alice_sock, w0)))
     = Inr ((alice_sock, w0),
            [({''sc''}, ''voice-ready'',
              JObj [(''userId'', JStr ''u1''), (''username'', JStr ''alice'')])]) \<and>
   {''sc''} = rooms w0 ''ROOM42'' - {sock_id alice_sock}"
proof -
  have a: "roomCode alice_sock = Some ''ROOM42''"
    by (simp add: alice_sock_def)
  have nf: "Room_findOne mem_models ''NOPE'' (db w0) = Inr None"
    by (simp add: mem_models_def w0_def db0_def)
  note at = failed_join_atomic [OF a disjI2 [OF disjI1 [OF nf]]]
  note kept = at [THEN conjunct2, THEN conjunct1]
  note after = at [THEN conjunct2, THEN conjunct2, THEN conjunct1, rule_format,
      of "[VoiceReady JUndefined]"]
  have relayed: "run mem_models [VoiceReady JUndefined]
                   (fst (join_room mem_models ''NOPE'' (alice_sock, w0)))
     = Inr ((alice_sock, w0),
            [({''sc''}, ''voice-ready'',
              JObj [(''userId'', JStr ''u1''), (''username'', JStr ''alice'')])])"
    by (simp only: after scenario_voice_ready)
  then have ev: "on_event mem_models (VoiceReady JUndefined)
                   (fst (join_room mem_models ''NOPE'' (alice_sock, w0)))
     = Inr ((alice_sock, w0),
            [({''sc''}, ''voice-ready'',
              JObj [(''userId'', JStr ''u1''), (''username'', JStr ''alice'')])])"
    by (simp split: sum.splits prod.splits)
  have ne: "''ROOM42'' \<noteq> []" and scoped: "room_scoped (VoiceReady JUndefined)"
    by simp_all
  note route = at [THEN conjunct2, THEN conjunct2, THEN conjunct2, rule_format,
      OF conjI [OF ne conjI [OF scoped ev]],
      of "({''sc''}, ''voice-ready'',
           JObj [(''userId'', JStr ''u1''), (''username'', JStr ''alice'')])"]
  have sid: "sock_id alice_sock = ''sa''"
    by (simp add: alice_sock_def)
  have "''sc'' \<in> rooms w0 ''ROOM42''"
    by (simp add: w0_def)
  with route have target: "{''sc''} = rooms w0 ''ROOM42'' - {sock_id alice_sock}"
    by (auto simp: sid)
  show ?thesis
    by (intro conjI) (rule a nf kept relayed target)+
qed

end
